theory Spec2Isabelle
  imports Main
begin

section \<open>Startup evaluation pipeline: values, exceptions and agents\<close>

text \<open>
  The program is one Python module, \<^verbatim>\<open>agnets_main.py\<close>. It declares seven
  pydantic result classes, seventeen \<^verbatim>\<open>Agent\<close> objects, seven guardrail functions
  and the driver \<^verbatim>\<open>evaluate_startup_gradio\<close>. The module-level names are kept.
\<close>

subsection \<open>Result classes and Python values\<close>

text \<open>
  Each \<^verbatim>\<open>BaseModel\<close> subclass of the module has exactly one field, a \<^verbatim>\<open>bool\<close>.
\<close>

datatype output_class =
    in_pii_and_poli_guardrail
  | product_eval_bias
  | team_eval_bias
  | out_pii_and_poli_guardrail
  | hallucination_guardrail
  | over_extreme_langauge_guardrail
  | bias_guardrail

datatype field_name =
    F_political_and_pii
  | F_product_eval_bias
  | F_team_eval_bias
  | F_sens_cont
  | F_hallucination
  | F_extreme_wording
  | F_bias

fun class_field :: "output_class \<Rightarrow> field_name" where
  "class_field in_pii_and_poli_guardrail = F_political_and_pii"
| "class_field product_eval_bias = F_product_eval_bias"
| "class_field team_eval_bias = F_team_eval_bias"
| "class_field out_pii_and_poli_guardrail = F_sens_cont"
| "class_field hallucination_guardrail = F_hallucination"
| "class_field over_extreme_langauge_guardrail = F_extreme_wording"
| "class_field bias_guardrail = F_bias"

text \<open>
  The values that flow through the module: \<^verbatim>\<open>None\<close>, a \<^verbatim>\<open>str\<close>, or an instance of
  one of the result classes (its class and the value of its one field).
\<close>

datatype pyval = PyNone | PyStr string | PyObj output_class bool

text \<open>Python truthiness, as \<^verbatim>\<open>x or y\<close> reads it.\<close>

fun truthy :: "pyval \<Rightarrow> bool" where
  "truthy PyNone = False"
| "truthy (PyStr s) = (s \<noteq> [])"
| "truthy (PyObj c b) = True"

definition py_or :: "pyval \<Rightarrow> pyval \<Rightarrow> pyval" where
  "py_or a b = (if truthy a then a else b)"

subsection \<open>Agents, guardrails and exceptions\<close>

datatype agent_id =
    in_guardrail_agent
  | bias_in_product_eval_agent
  | bias_in_team_eval_agent
  | out_pii_or_poli_guardrail_agent
  | hallucination_guardrail_agent
  | over_extreme_langauge_guardrail_agent
  | bias_guardrail_agent
  | product_eval_agent
  | market_eval_agent
  | team_eval_agent
  | startup_eval_agent
  | differentiation_analyzer_agent
  | vision_agent
  | scalability_agent
  | startup_improvement_agent
  | risk_finder_agent
  | orchestrator_agent

text \<open>The functions decorated with \<^verbatim>\<open>@input_guardrail\<close> or \<^verbatim>\<open>@output_guardrail\<close>.\<close>

datatype guardrail =
    pii_and_poli_guardrail
  | bias_in_product_eval
  | bias_in_team_eval
  | sens_content_guardrail
  | hallucination_output_guardrail
  | extreme_language_guardrail
  | bias_detection_guardrail

text \<open>
  What a call can raise. The two tripwire exceptions carry the guardrail that fired and
  its \<^verbatim>\<open>output_info\<close>; they are siblings, neither is a subclass of the other.
\<close>

datatype exn =
    InputGuardrailTripwireTriggered guardrail pyval
  | OutputGuardrailTripwireTriggered guardrail pyval
  | InferenceFailure
  | SchemaValidationFailure
  | ModelBehaviorError
  | AttributeError

record tool =
  tool_name :: string
  tool_description :: string
  tool_agent :: agent_id

text \<open>
  An \<^verbatim>\<open>Agent(...)\<close> object. The instruction text is prompt material for the language
  model and takes no part in the control flow, so it is not carried; an argument the
  constructor call leaves out is \<open>None\<close> or the empty list.
\<close>

record agent =
  name :: string
  output_type :: "output_class option"
  model :: "string option"
  tools :: "tool list"
  handoffs :: "agent_id list"
  input_guardrails :: "guardrail list"
  output_guardrails :: "guardrail list"

text \<open>The module's agents, one equation per assignment, in the order of the file.\<close>

fun agents :: "agent_id \<Rightarrow> agent" where
  "agents in_guardrail_agent =
     \<lparr>name = ''input_pii_poli_agent'', output_type = Some in_pii_and_poli_guardrail,
      model = Some ''gpt-4o-mini'', tools = [], handoffs = [],
      input_guardrails = [], output_guardrails = []\<rparr>"
| "agents bias_in_product_eval_agent =
     \<lparr>name = ''bias_in_product_eval_agent'', output_type = Some product_eval_bias,
      model = Some ''gpt-4o-mini'', tools = [], handoffs = [],
      input_guardrails = [], output_guardrails = []\<rparr>"
| "agents bias_in_team_eval_agent =
     \<lparr>name = ''bias_in_team_eval_agent'', output_type = Some team_eval_bias,
      model = Some ''gpt-4o-mini'', tools = [], handoffs = [],
      input_guardrails = [], output_guardrails = []\<rparr>"
| "agents out_pii_or_poli_guardrail_agent =
     \<lparr>name = ''sensitive_content_agent'', output_type = Some out_pii_and_poli_guardrail,
      model = Some ''gpt-4o-mini'', tools = [], handoffs = [],
      input_guardrails = [], output_guardrails = []\<rparr>"
| "agents hallucination_guardrail_agent =
     \<lparr>name = ''hallucination_finder_agent'', output_type = Some hallucination_guardrail,
      model = Some ''gpt-4o-mini'', tools = [], handoffs = [],
      input_guardrails = [], output_guardrails = []\<rparr>"
| "agents over_extreme_langauge_guardrail_agent =
     \<lparr>name = ''extreme_language_agent'', output_type = Some over_extreme_langauge_guardrail,
      model = Some ''gpt-4o-mini'', tools = [], handoffs = [],
      input_guardrails = [], output_guardrails = []\<rparr>"
| "agents bias_guardrail_agent =
     \<lparr>name = ''bias_agent'', output_type = Some bias_guardrail,
      model = Some ''gpt-4o-mini'', tools = [], handoffs = [],
      input_guardrails = [], output_guardrails = []\<rparr>"
| "agents product_eval_agent =
     \<lparr>name = ''product_eval_agent'', output_type = None, model = None, tools = [],
      handoffs = [], input_guardrails = [], output_guardrails = [bias_in_product_eval]\<rparr>"
| "agents market_eval_agent =
     \<lparr>name = ''market_eval_agent'', output_type = None, model = None, tools = [],
      handoffs = [], input_guardrails = [], output_guardrails = []\<rparr>"
| "agents team_eval_agent =
     \<lparr>name = ''team_eval_agent'', output_type = None, model = None, tools = [],
      handoffs = [], input_guardrails = [], output_guardrails = [bias_in_team_eval]\<rparr>"
| "agents startup_eval_agent =
     \<lparr>name = ''startup_eval_agent'', output_type = None, model = None,
      tools =
        [\<lparr>tool_name = ''product_evaluation_tool'',
          tool_description = ''Evaluates product quality, defensibility, and user fit.'',
          tool_agent = product_eval_agent\<rparr>,
         \<lparr>tool_name = ''market_evaluation_tool'',
          tool_description = ''Analyzes market size, timing, and competition.'',
          tool_agent = market_eval_agent\<rparr>,
         \<lparr>tool_name = ''team_evaluation_tool'',
          tool_description = ''Assesses team experience, execution, and completeness.'',
          tool_agent = team_eval_agent\<rparr>],
      handoffs = [], input_guardrails = [], output_guardrails = []\<rparr>"
| "agents differentiation_analyzer_agent =
     \<lparr>name = ''differentiation_analyzer_agent'', output_type = None, model = None,
      tools = [], handoffs = [], input_guardrails = [], output_guardrails = []\<rparr>"
| "agents vision_agent =
     \<lparr>name = ''vision_agent'', output_type = None, model = None,
      tools = [], handoffs = [], input_guardrails = [], output_guardrails = []\<rparr>"
| "agents scalability_agent =
     \<lparr>name = ''scalability_agent'', output_type = None, model = None,
      tools = [], handoffs = [], input_guardrails = [], output_guardrails = []\<rparr>"
| "agents startup_improvement_agent =
     \<lparr>name = ''startup_improvement_agent'', output_type = None, model = None, tools = [],
      handoffs = [differentiation_analyzer_agent, vision_agent, scalability_agent],
      input_guardrails = [], output_guardrails = []\<rparr>"
| "agents risk_finder_agent =
     \<lparr>name = ''risk_finder_agent'', output_type = None, model = None,
      tools = [], handoffs = [], input_guardrails = [], output_guardrails = []\<rparr>"
| "agents orchestrator_agent =
     \<lparr>name = ''orchestrator_agent'', output_type = None, model = None, tools = [],
      handoffs = [startup_improvement_agent],
      input_guardrails = [pii_and_poli_guardrail],
      output_guardrails =
        [sens_content_guardrail, hallucination_output_guardrail,
         extreme_language_guardrail, bias_detection_guardrail]\<rparr>"

section \<open>The driver\<close>

text \<open>
  \<^verbatim>\<open>Runner.run\<close> belongs to the agents SDK, not to the module. The driver is therefore
  written over any runner: a function from the agent and the input to what the awaited
  call does, \<open>Some (Inr v)\<close> when it returns a result whose \<^verbatim>\<open>final_output\<close> is \<open>v\<close>,
  \<open>Some (Inl e)\<close> when it raises \<open>e\<close>, \<open>None\<close> when it never completes.
\<close>

type_synonym runner = "agent_id \<Rightarrow> pyval \<Rightarrow> (exn + pyval) option"

definition guardrail_tripped_message :: string where
  "guardrail_tripped_message =
     ''Guardrail tripped '' @ [CHR 0xE2, CHR 0x80, CHR 0x93] @
     '' sensitive content detected. Please revise your input.''"

definition no_risks_message :: string where
  "no_risks_message = ''No major risks flagged.''"

text \<open>
  The one \<^verbatim>\<open>except\<close> clause of the driver: \<^verbatim>\<open>OutputGuardrailTripwireTriggered\<close> becomes
  the fixed pair, every other exception leaves the function.
\<close>

fun except_clause :: "exn \<Rightarrow> exn + pyval \<times> pyval" where
  "except_clause (OutputGuardrailTripwireTriggered g info) =
     Inr (PyStr guardrail_tripped_message, PyStr [])"
| "except_clause e = Inl e"

text \<open>
  \<^verbatim>\<open>evaluate_startup_gradio\<close>. Beside its result (the returned pair, or the exception
  that escapes) the model reports the agents the driver handed to \<^verbatim>\<open>Runner.run\<close>, in
  order.
\<close>

definition evaluate_startup_gradio ::
  "runner \<Rightarrow> string \<Rightarrow> (agent_id list \<times> (exn + pyval \<times> pyval)) option" where
  "evaluate_startup_gradio run user_input =
     (case run orchestrator_agent (PyStr user_input) of
        None \<Rightarrow> None
      | Some (Inl e) \<Rightarrow> Some ([orchestrator_agent], except_clause e)
      | Some (Inr result) \<Rightarrow>
          (case run risk_finder_agent (PyStr user_input) of
             None \<Rightarrow> None
           | Some (Inl e) \<Rightarrow> Some ([orchestrator_agent, risk_finder_agent], except_clause e)
           | Some (Inr risks) \<Rightarrow>
               Some ([orchestrator_agent, risk_finder_agent],
                     Inr (result, py_or risks (PyStr no_risks_message)))))"

section \<open>The runner\<close>

subsection \<open>The guardrail functions\<close>

text \<open>
  The seven guardrail functions of the module share one body: run the function's own
  checker agent on the text under evaluation, and return a \<^verbatim>\<open>GuardrailFunctionOutput\<close>
  whose \<^verbatim>\<open>output_info\<close> is the checker's \<^verbatim>\<open>final_output\<close> and whose
  \<^verbatim>\<open>tripwire_triggered\<close> is one named field of it. They differ in the agent they run
  and in the field they read.
\<close>

fun guardrail_agent :: "guardrail \<Rightarrow> agent_id" where
  "guardrail_agent pii_and_poli_guardrail = in_guardrail_agent"
| "guardrail_agent bias_in_product_eval = bias_in_product_eval_agent"
| "guardrail_agent bias_in_team_eval = bias_in_team_eval_agent"
| "guardrail_agent sens_content_guardrail = out_pii_or_poli_guardrail_agent"
| "guardrail_agent hallucination_output_guardrail = hallucination_guardrail_agent"
| "guardrail_agent extreme_language_guardrail = over_extreme_langauge_guardrail_agent"
| "guardrail_agent bias_detection_guardrail = bias_guardrail_agent"

fun guardrail_field :: "guardrail \<Rightarrow> field_name" where
  "guardrail_field pii_and_poli_guardrail = F_political_and_pii"
| "guardrail_field bias_in_product_eval = F_product_eval_bias"
| "guardrail_field bias_in_team_eval = F_team_eval_bias"
| "guardrail_field sens_content_guardrail = F_sens_cont"
| "guardrail_field hallucination_output_guardrail = F_hallucination"
| "guardrail_field extreme_language_guardrail = F_extreme_wording"
| "guardrail_field bias_detection_guardrail = F_bias"

text \<open>Attribute access \<^verbatim>\<open>v.f\<close>: only an instance of the class that has the field answers.\<close>

fun getattr :: "pyval \<Rightarrow> field_name \<Rightarrow> exn + bool" where
  "getattr (PyObj c b) f = (if class_field c = f then Inr b else Inl AttributeError)"
| "getattr v f = Inl AttributeError"

record GuardrailFunctionOutput =
  output_info :: pyval
  tripwire_triggered :: bool

text \<open>
  Inside the runner a run is observed together with its trace: the agents whose model
  was called during the run, in order.
\<close>

type_synonym traced_runner = "agent_id \<Rightarrow> pyval \<Rightarrow> (agent_id list \<times> (exn + pyval)) option"

definition guardrail_function ::
  "traced_runner \<Rightarrow> guardrail \<Rightarrow> pyval \<Rightarrow> (agent_id list \<times> (exn + GuardrailFunctionOutput)) option" where
  "guardrail_function run g input =
     (case run (guardrail_agent g) input of
        None \<Rightarrow> None
      | Some (t, Inl e) \<Rightarrow> Some (t, Inl e)
      | Some (t, Inr final_output) \<Rightarrow>
          (case getattr final_output (guardrail_field g) of
             Inl e \<Rightarrow> Some (t, Inl e)
           | Inr b \<Rightarrow>
               Some (t, Inr \<lparr>output_info = final_output, tripwire_triggered = b\<rparr>)))"

subsection \<open>The language model\<close>

text \<open>
  The inference call is outside the program. It is a parameter of the model: a function
  from the agent on whose behalf the model is called and the conversation so far to the
  model's reply, which is a final output, a request to hand off to an agent, a request to
  call a tool by name, or a failure of the call.
\<close>

datatype item =
    UserMessage pyval
  | HandoffMade agent_id agent_id
  | ToolResult string pyval

datatype reply =
    FinalOutput pyval
  | HandoffCall agent_id
  | ToolCall string pyval
  | InferenceFailed

type_synonym llm = "agent_id \<Rightarrow> item list \<Rightarrow> reply"

subsection \<open>The run loop\<close>

text \<open>
  Modelled from the spec: \<^verbatim>\<open>Runner.run\<close>, the loop of the agents SDK that the module
  calls but does not contain. A final output is validated against the agent's expected
  shape (section 4.1: a result that does not fit is a \<open>SchemaValidationFailure\<close>; an
  agent with no expected shape returns text, possibly absent).
\<close>

fun conforms :: "output_class option \<Rightarrow> pyval \<Rightarrow> bool" where
  "conforms None (PyObj c b) = False"
| "conforms None v = True"
| "conforms (Some c) (PyObj c' b) = (c = c')"
| "conforms (Some c) v = False"

text \<open>
  Modelled from the spec: the guardrail chain of \<^verbatim>\<open>Runner.run\<close> (sections 4.2 and 4.6).
  Each guardrail is evaluated on the text; a guardrail that cannot be evaluated is an
  error, not a pass; the first trigger found aborts further checking and raises the
  tripwire exception with the guardrail's identity and details.
\<close>

fun check_guardrails ::
  "traced_runner \<Rightarrow> (guardrail \<Rightarrow> pyval \<Rightarrow> exn) \<Rightarrow> guardrail list \<Rightarrow> pyval \<Rightarrow>
   (agent_id list \<times> (exn + unit)) option" where
  "check_guardrails run tripped [] v = Some ([], Inr ())"
| "check_guardrails run tripped (g # gs) v =
     (case guardrail_function run g v of
        None \<Rightarrow> None
      | Some (t, Inl e) \<Rightarrow> Some (t, Inl e)
      | Some (t, Inr out) \<Rightarrow>
          if tripwire_triggered out then Some (t, Inl (tripped g (output_info out)))
          else (case check_guardrails run tripped gs v of
                  None \<Rightarrow> None
                | Some (t', r) \<Rightarrow> Some (t @ t', r)))"

text \<open>
  Modelled from the spec: \<^verbatim>\<open>Runner.run\<close> itself (sections 3, 4.3, 4.4 and 4.6).
  \<^item> The input guardrails of the starting agent are run on the raw input; any trigger
    ends the run with \<open>InputGuardrailTripwireTriggered\<close> before any reasoning.
  \<^item> The active agent's model is called on the conversation. A hand-off to one of the
    agent's \<^verbatim>\<open>handoffs\<close> makes the target the active responder for the remainder of
    the request; control does not return to the delegator (section 3, DelegationEdge).
    A call of one of the agent's tools runs the callee as a run of its own and puts its
    output back into the owner's conversation, and the owner continues (section 3,
    ToolBinding). A hand-off or tool the agent does not have is an error.
  \<^item> The final output is passed through the output guardrails attached to the agent
    that produced it before it is returned (section 4.3); any trigger ends the run with
    \<open>OutputGuardrailTripwireTriggered\<close>.
  Sections 4.5 and 4.6 of the spec also speak of the delegator composing the delegates'
  outputs afterwards; a hand-off as section 3 defines it leaves the delegator no such
  turn, and the model follows section 3, the mechanism the module's \<^verbatim>\<open>handoffs=\<close>
  selects (the returning mechanism is \<^verbatim>\<open>as_tool\<close>).
  The first argument after the model is fuel: every call, nested or not, spends one unit,
  and \<open>None\<close> says that the fuel did not suffice.
\<close>

fun run_turns ::
    "llm \<Rightarrow> nat \<Rightarrow> agent_id \<Rightarrow> item list \<Rightarrow> (agent_id list \<times> (exn + agent_id \<times> pyval)) option"
  and Runner_run ::
    "llm \<Rightarrow> nat \<Rightarrow> agent_id \<Rightarrow> pyval \<Rightarrow> (agent_id list \<times> (exn + pyval)) option" where
  "run_turns m 0 a conv = None"
| "run_turns m (Suc n) a conv =
     (case m a conv of
        InferenceFailed \<Rightarrow> Some ([a], Inl InferenceFailure)
      | FinalOutput v \<Rightarrow>
          if conforms (output_type (agents a)) v then Some ([a], Inr (a, v))
          else Some ([a], Inl SchemaValidationFailure)
      | HandoffCall b \<Rightarrow>
          if b \<in> set (handoffs (agents a))
          then (case run_turns m n b (conv @ [HandoffMade a b]) of
                  None \<Rightarrow> None
                | Some (t, r) \<Rightarrow> Some (a # t, r))
          else Some ([a], Inl ModelBehaviorError)
      | ToolCall tn arg \<Rightarrow>
          (case find (\<lambda>t. tool_name t = tn) (tools (agents a)) of
             None \<Rightarrow> Some ([a], Inl ModelBehaviorError)
           | Some tb \<Rightarrow>
               (case Runner_run m n (tool_agent tb) arg of
                  None \<Rightarrow> None
                | Some (t, Inl e) \<Rightarrow> Some (a # t, Inl e)
                | Some (t, Inr v) \<Rightarrow>
                    (case run_turns m n a (conv @ [ToolResult tn v]) of
                       None \<Rightarrow> None
                     | Some (t', r) \<Rightarrow> Some (a # t @ t', r)))))"
| "Runner_run m 0 a inp = None"
| "Runner_run m (Suc n) a inp =
     (case check_guardrails (\<lambda>b v. Runner_run m n b v) InputGuardrailTripwireTriggered
             (input_guardrails (agents a)) inp of
        None \<Rightarrow> None
      | Some (t1, Inl e) \<Rightarrow> Some (t1, Inl e)
      | Some (t1, Inr u) \<Rightarrow>
          (case run_turns m n a [UserMessage inp] of
             None \<Rightarrow> None
           | Some (t2, Inl e) \<Rightarrow> Some (t1 @ t2, Inl e)
           | Some (t2, Inr (b, v)) \<Rightarrow>
               (case check_guardrails (\<lambda>b v. Runner_run m n b v)
                       OutputGuardrailTripwireTriggered (output_guardrails (agents b)) v of
                  None \<Rightarrow> None
                | Some (t3, Inl e) \<Rightarrow> Some (t1 @ t2 @ t3, Inl e)
                | Some (t3, Inr u') \<Rightarrow> Some (t1 @ t2 @ t3, Inr v))))"

text \<open>The runner the driver sees: the run without its trace.\<close>

definition untraced :: "traced_runner \<Rightarrow> runner" where
  "untraced run a inp = map_option snd (run a inp)"

section \<open>The agent graph and the configuration\<close>

text \<open>
  The agents an agent can cause to run: its hand-off targets, the agents behind its tools,
  and the checker agents behind its guardrails.
\<close>

definition callees :: "agent_id \<Rightarrow> agent_id list" where
  "callees a =
     handoffs (agents a) @ map tool_agent (tools (agents a)) @
     map guardrail_agent (input_guardrails (agents a) @ output_guardrails (agents a))"

inductive reachable :: "agent_id \<Rightarrow> agent_id \<Rightarrow> bool" where
  start: "reachable a a"
| step: "reachable a b \<Longrightarrow> c \<in> set (callees b) \<Longrightarrow> reachable a c"

code_pred reachable .

text \<open>
  The module calls \<^verbatim>\<open>load_dotenv()\<close> and then builds its agents from literals: the
  model identifier an agent is constructed with, given the process environment.
\<close>

definition configured_model :: "(string \<rightharpoonup> string) \<Rightarrow> agent_id \<Rightarrow> string option" where
  "configured_model env a = model (agents a)"

section \<open>Notions used in the statements\<close>

text \<open>An agent with no tools, no hand-offs and no guardrails.\<close>

definition is_leaf :: "agent_id \<Rightarrow> bool" where
  "is_leaf a = (tools (agents a) = [] \<and> handoffs (agents a) = [] \<and>
                input_guardrails (agents a) = [] \<and> output_guardrails (agents a) = [])"

text \<open>The agents that stand behind the guardrail functions.\<close>

definition checker_agents :: "agent_id set" where
  "checker_agents =
     {in_guardrail_agent, bias_in_product_eval_agent, bias_in_team_eval_agent,
      out_pii_or_poli_guardrail_agent, hallucination_guardrail_agent,
      over_extreme_langauge_guardrail_agent, bias_guardrail_agent}"

text \<open>
  In a trace, agent \<open>a\<close> resumes after agent \<open>b\<close> when the model of \<open>a\<close> is called at
  some point after the first call of the model of \<open>b\<close>.
\<close>

definition resumes_after :: "agent_id \<Rightarrow> agent_id \<Rightarrow> agent_id list \<Rightarrow> bool" where
  "resumes_after a b t = (a \<in> set (dropWhile (\<lambda>x. x \<noteq> b) t))"

text \<open>The outcome of the turns, if it is a final output, is the output of agent \<open>a\<close>.\<close>

fun final_by :: "exn + agent_id \<times> pyval \<Rightarrow> agent_id \<Rightarrow> bool" where
  "final_by (Inr (b, v)) a = (b = a)"
| "final_by (Inl e) a = True"

section \<open>Test doubles\<close>

text \<open>
  A runner stub: the Orchestrator pass and the Risk Finder pass each do what they are told
  (return a final output or raise), whatever the input.
\<close>

definition stub_runner :: "(exn + pyval) \<Rightarrow> (exn + pyval) \<Rightarrow> runner" where
  "stub_runner orch risk a inp =
     (if a = orchestrator_agent then Some orch
      else if a = risk_finder_agent then Some risk
      else None)"

text \<open>
  A language-model stub: a checker agent answers with an instance of its result class
  whose field is the given verdict; every other agent answers as scripted.
\<close>

definition stub_llm :: "(agent_id \<Rightarrow> bool) \<Rightarrow> (agent_id \<Rightarrow> reply) \<Rightarrow> llm" where
  "stub_llm verdict talk a conv =
     (case output_type (agents a) of
        Some c \<Rightarrow> FinalOutput (PyObj c (verdict a))
      | None \<Rightarrow> talk a)"

definition no_verdict :: "agent_id \<Rightarrow> bool" where
  "no_verdict a = False"

definition pii_verdict :: "agent_id \<Rightarrow> bool" where
  "pii_verdict a = (a = in_guardrail_agent)"

definition bias_verdict :: "agent_id \<Rightarrow> bool" where
  "bias_verdict a = (a = bias_in_product_eval_agent \<or> a = bias_guardrail_agent)"

definition output_verdict :: "agent_id \<Rightarrow> bool" where
  "output_verdict a = (a \<noteq> in_guardrail_agent)"

definition plain_talk :: "agent_id \<Rightarrow> reply" where
  "plain_talk a = FinalOutput (PyStr ''Clear niche.'')"

definition handoff_talk :: "agent_id \<Rightarrow> reply" where
  "handoff_talk a =
     (if a = orchestrator_agent then HandoffCall startup_improvement_agent
      else if a = startup_improvement_agent then HandoffCall vision_agent
      else FinalOutput (PyStr ''Name the five-year goal.''))"

section \<open>Properties of the driver\<close>

text \<open>
  C8. Whenever the Orchestrator pass returns and the Risk Finder pass returns, the driver
  returns the Orchestrator's output as feedback, and as risk text the fixed text
  \<^verbatim>\<open>No major risks flagged.\<close> if the Risk Finder's output is absent or empty, and
  exactly that output otherwise.
\<close>

theorem risk_field_fallback:
  assumes "run orchestrator_agent (PyStr user_input) = Some (Inr feedback)"
    and "run risk_finder_agent (PyStr user_input) = Some (Inr risks)"
  shows "evaluate_startup_gradio run user_input =
           Some ([orchestrator_agent, risk_finder_agent],
                 Inr (feedback,
                      if risks = PyNone \<or> risks = PyStr [] then PyStr ''No major risks flagged.''
                      else risks))"
  using assms
  by (cases risks) (simp_all add: evaluate_startup_gradio_def py_or_def no_risks_message_def)

theorem risk_field_fallback_witness:
  "evaluate_startup_gradio (stub_runner (Inr (PyStr ''Clear niche.'')) (Inr (PyStr [])))
      ''We sell maps.''
     = Some ([orchestrator_agent, risk_finder_agent],
             Inr (PyStr ''Clear niche.'', PyStr ''No major risks flagged.''))
   \<and> evaluate_startup_gradio (stub_runner (Inr (PyStr ''Clear niche.'')) (Inr PyNone))
      ''We sell maps.''
     = Some ([orchestrator_agent, risk_finder_agent],
             Inr (PyStr ''Clear niche.'', PyStr ''No major risks flagged.''))
   \<and> evaluate_startup_gradio
        (stub_runner (Inr (PyStr ''Clear niche.'')) (Inr (PyStr ''Solo founder.'')))
      ''We sell maps.''
     = Some ([orchestrator_agent, risk_finder_agent],
             Inr (PyStr ''Clear niche.'', PyStr ''Solo founder.''))"
  using
    risk_field_fallback
      [of "stub_runner (Inr (PyStr ''Clear niche.'')) (Inr (PyStr []))" "''We sell maps.''"
          "PyStr ''Clear niche.''" "PyStr []"]
    risk_field_fallback
      [of "stub_runner (Inr (PyStr ''Clear niche.'')) (Inr PyNone)" "''We sell maps.''"
          "PyStr ''Clear niche.''" PyNone]
    risk_field_fallback
      [of "stub_runner (Inr (PyStr ''Clear niche.'')) (Inr (PyStr ''Solo founder.''))"
          "''We sell maps.''" "PyStr ''Clear niche.''" "PyStr ''Solo founder.''"]
  by (simp add: stub_runner_def)

text \<open>
  C1, as the code has it. The claim that the Risk Finder's result is in the risk field
  whatever the Orchestrator pass did fails: the two passes are awaited one after the
  other inside one \<^verbatim>\<open>try\<close>, and the handler returns the empty string as risk text.
  First the failing run: the Orchestrator pass trips an output guardrail, the Risk Finder
  stub would have answered \<^verbatim>\<open>Solo founder.\<close>, and the risk field is empty.
\<close>

theorem risk_dropped_on_output_trip:
  "evaluate_startup_gradio
     (stub_runner
        (Inl (OutputGuardrailTripwireTriggered bias_detection_guardrail (PyObj bias_guardrail True)))
        (Inr (PyStr ''Solo founder.'')))
     ''We sell maps.''
   = Some ([orchestrator_agent], Inr (PyStr guardrail_tripped_message, PyStr []))
   \<and> stub_runner
        (Inl (OutputGuardrailTripwireTriggered bias_detection_guardrail (PyObj bias_guardrail True)))
        (Inr (PyStr ''Solo founder.'')) risk_finder_agent (PyStr ''We sell maps.'')
       = Some (Inr (PyStr ''Solo founder.''))"
  by (simp add: evaluate_startup_gradio_def stub_runner_def)

text \<open>
  C1, amended. When the Orchestrator pass returns normally and the Risk Finder returns a
  non-empty result, the risk field is exactly the Risk Finder's result. When the
  Orchestrator pass ends in \<^verbatim>\<open>OutputGuardrailTripwireTriggered\<close>, the Risk Finder pass
  is not run and the risk field is the empty string.
\<close>

theorem risk_field_by_orchestrator_outcome:
  "(run orchestrator_agent (PyStr inp) = Some (Inr feedback) \<and>
    run risk_finder_agent (PyStr inp) = Some (Inr risks) \<and> truthy risks \<longrightarrow>
      evaluate_startup_gradio run inp =
        Some ([orchestrator_agent, risk_finder_agent], Inr (feedback, risks)))
   \<and> (run orchestrator_agent (PyStr inp) =
         Some (Inl (OutputGuardrailTripwireTriggered g info)) \<longrightarrow>
      (\<exists>message. evaluate_startup_gradio run inp =
        Some ([orchestrator_agent], Inr (message, PyStr []))))"
  by (simp add: evaluate_startup_gradio_def py_or_def)

theorem risk_field_by_orchestrator_outcome_witness:
  "evaluate_startup_gradio
     (stub_runner (Inr (PyStr ''Clear niche.'')) (Inr (PyStr ''Solo founder.'')))
     ''We sell maps.''
   = Some ([orchestrator_agent, risk_finder_agent],
           Inr (PyStr ''Clear niche.'', PyStr ''Solo founder.''))
   \<and> (\<exists>message. evaluate_startup_gradio
        (stub_runner
           (Inl (OutputGuardrailTripwireTriggered hallucination_output_guardrail
                  (PyObj hallucination_guardrail True)))
           (Inr (PyStr ''Solo founder.'')))
        ''We sell maps.''
      = Some ([orchestrator_agent], Inr (message, PyStr [])))"
  using
    risk_field_by_orchestrator_outcome
      [of "stub_runner (Inr (PyStr ''Clear niche.'')) (Inr (PyStr ''Solo founder.''))"
          "''We sell maps.''" "PyStr ''Clear niche.''" "PyStr ''Solo founder.''"]
    risk_field_by_orchestrator_outcome
      [of "stub_runner
            (Inl (OutputGuardrailTripwireTriggered hallucination_output_guardrail
                   (PyObj hallucination_guardrail True)))
            (Inr (PyStr ''Solo founder.''))"
          "''We sell maps.''" _ _ hallucination_output_guardrail
          "PyObj hallucination_guardrail True"]
  by (simp add: stub_runner_def)

text \<open>
  C5, as the code has it. The claim that the message names the category of the guardrail
  that fired fails: the handler returns one fixed text. A run rejected by the
  hallucination guardrail and a run rejected by the bias guardrail give the same response.
\<close>

theorem output_trip_message_same:
  "evaluate_startup_gradio
     (stub_runner
        (Inl (OutputGuardrailTripwireTriggered hallucination_output_guardrail
               (PyObj hallucination_guardrail True)))
        (Inr (PyStr ''Solo founder.'')))
     ''We sell maps.''
   = evaluate_startup_gradio
     (stub_runner
        (Inl (OutputGuardrailTripwireTriggered bias_detection_guardrail (PyObj bias_guardrail True)))
        (Inr (PyStr ''Solo founder.'')))
     ''We sell maps.''"
  by (simp add: evaluate_startup_gradio_def stub_runner_def)

text \<open>
  C5, amended. When an output guardrail trips, the feedback field is the one fixed text
  of the handler, the same for every guardrail, every \<^verbatim>\<open>output_info\<close> and every input;
  it says that sensitive content was detected and carries none of the flagged content.
\<close>

theorem output_trip_message_fixed:
  assumes "run orchestrator_agent (PyStr inp) =
             Some (Inl (OutputGuardrailTripwireTriggered g info))"
  shows "map_option (map_sum id fst \<circ> snd) (evaluate_startup_gradio run inp) =
           Some (Inr (PyStr
             (''Guardrail tripped '' @ [CHR 0xE2, CHR 0x80, CHR 0x93] @
              '' sensitive content detected. Please revise your input.'')))"
  using assms by (simp add: evaluate_startup_gradio_def guardrail_tripped_message_def)

theorem output_trip_message_fixed_witness:
  "map_option (map_sum id fst \<circ> snd)
     (evaluate_startup_gradio
        (stub_runner
           (Inl (OutputGuardrailTripwireTriggered extreme_language_guardrail
                  (PyObj over_extreme_langauge_guardrail True)))
           (Inr (PyStr ''Solo founder.'')))
        ''We sell maps.'') =
     Some (Inr (PyStr
       (''Guardrail tripped '' @ [CHR 0xE2, CHR 0x80, CHR 0x93] @
        '' sensitive content detected. Please revise your input.'')))"
  by (rule output_trip_message_fixed
        [of _ _ extreme_language_guardrail "PyObj over_extreme_langauge_guardrail True"])
     (simp add: stub_runner_def)

text \<open>
  C6, as the code has it. The claim that an inference failure is turned into a service
  error message at the driver fails: the driver has no handler for it. With a failing
  Orchestrator pass the exception leaves \<^verbatim>\<open>evaluate_startup_gradio\<close>.
\<close>

theorem inference_failure_uncaught:
  "evaluate_startup_gradio (stub_runner (Inl InferenceFailure) (Inr (PyStr ''Solo founder.'')))
     ''We sell maps.'' = Some ([orchestrator_agent], Inl InferenceFailure)"
  by (simp add: evaluate_startup_gradio_def stub_runner_def)

text \<open>
  C6, amended. When an inference call fails in either pass (\<open>InferenceFailure\<close> or
  \<open>SchemaValidationFailure\<close>), the failure propagates out of the driver as that same
  exception: no response pair is returned, and what the other pass produced is discarded.
\<close>

theorem inference_failure_escapes:
  assumes "e = InferenceFailure \<or> e = SchemaValidationFailure"
  shows "(run orchestrator_agent (PyStr inp) = Some (Inl e) \<longrightarrow>
            evaluate_startup_gradio run inp = Some ([orchestrator_agent], Inl e)) \<and>
         (run orchestrator_agent (PyStr inp) = Some (Inr feedback) \<and>
          run risk_finder_agent (PyStr inp) = Some (Inl e) \<longrightarrow>
            evaluate_startup_gradio run inp =
              Some ([orchestrator_agent, risk_finder_agent], Inl e))"
  using assms by (auto simp: evaluate_startup_gradio_def)

theorem inference_failure_escapes_witness:
  "evaluate_startup_gradio
     (stub_runner (Inl SchemaValidationFailure) (Inr (PyStr ''Solo founder.'')))
     ''We sell maps.'' = Some ([orchestrator_agent], Inl SchemaValidationFailure)
   \<and> evaluate_startup_gradio
     (stub_runner (Inr (PyStr ''Clear niche.'')) (Inl InferenceFailure))
     ''We sell maps.'' = Some ([orchestrator_agent, risk_finder_agent], Inl InferenceFailure)"
  using
    inference_failure_escapes
      [of SchemaValidationFailure
          "stub_runner (Inl SchemaValidationFailure) (Inr (PyStr ''Solo founder.''))"
          "''We sell maps.''"]
    inference_failure_escapes
      [of InferenceFailure
          "stub_runner (Inr (PyStr ''Clear niche.'')) (Inl InferenceFailure)"
          "''We sell maps.''" "PyStr ''Clear niche.''"]
  by (simp add: stub_runner_def)

section \<open>Properties of the agent graph\<close>

lemma reachable_from_orchestrator:
  assumes "reachable orchestrator_agent b"
  shows "b \<in> {orchestrator_agent, startup_improvement_agent, differentiation_analyzer_agent,
               vision_agent, scalability_agent, in_guardrail_agent,
               out_pii_or_poli_guardrail_agent, hallucination_guardrail_agent,
               over_extreme_langauge_guardrail_agent, bias_guardrail_agent}"
  using assms
proof (induction orchestrator_agent b rule: reachable.induct)
  case start
  show ?case by simp
next
  case (step b c)
  then show ?case by (auto simp: callees_def)
qed

lemma reachable_from_risk_finder:
  assumes "reachable risk_finder_agent b"
  shows "b = risk_finder_agent"
  using assms
proof (induction risk_finder_agent b rule: reachable.induct)
  case start
  show ?case by simp
next
  case (step b c)
  then show ?case by (simp add: callees_def)
qed

text \<open>
  C9. The driver hands only \<open>orchestrator_agent\<close> and \<open>risk_finder_agent\<close> to the runner,
  and no agent reachable from them through hand-offs, tools or guardrails is
  \<open>startup_eval_agent\<close> or one of the three leaf evaluators behind its tools, nor has
  \<open>startup_eval_agent\<close> among its hand-off targets or tools: the tool dispatch of the leaf
  evaluators cannot be reached from \<^verbatim>\<open>evaluate_startup_gradio\<close>.
\<close>

theorem tool_dispatch_unreachable:
  assumes "evaluate_startup_gradio run user_input = Some (called, res)"
    and "a \<in> set called"
    and "reachable a b"
  shows "a \<in> {orchestrator_agent, risk_finder_agent} \<and>
         b \<notin> {startup_eval_agent, product_eval_agent, market_eval_agent, team_eval_agent} \<and>
         startup_eval_agent \<notin> set (callees b)"
proof -
  have a: "a = orchestrator_agent \<or> a = risk_finder_agent"
    using assms(1,2)
    by (auto simp: evaluate_startup_gradio_def split: option.splits sum.splits)
  then show ?thesis
  proof
    assume "a = orchestrator_agent"
    with assms(3) reachable_from_orchestrator [of b] show ?thesis
      by (auto simp: callees_def)
  next
    assume "a = risk_finder_agent"
    with assms(3) reachable_from_risk_finder [of b] show ?thesis
      by (auto simp: callees_def)
  qed
qed

theorem tool_dispatch_unreachable_witness:
  "evaluate_startup_gradio
     (stub_runner (Inr (PyStr ''Clear niche.'')) (Inr (PyStr ''Solo founder.'')))
     ''We sell maps.''
   = Some ([orchestrator_agent, risk_finder_agent],
           Inr (PyStr ''Clear niche.'', PyStr ''Solo founder.''))
   \<and> reachable orchestrator_agent bias_guardrail_agent
   \<and> bias_guardrail_agent \<notin>
       {startup_eval_agent, product_eval_agent, market_eval_agent, team_eval_agent}
   \<and> startup_eval_agent \<notin> set (callees bias_guardrail_agent)"
proof -
  let ?run = "stub_runner (Inr (PyStr ''Clear niche.'')) (Inr (PyStr ''Solo founder.''))"
  have a: "evaluate_startup_gradio ?run ''We sell maps.''
     = Some ([orchestrator_agent, risk_finder_agent],
             Inr (PyStr ''Clear niche.'', PyStr ''Solo founder.''))"
    by (simp add: evaluate_startup_gradio_def stub_runner_def py_or_def)
  have b: "orchestrator_agent \<in> set [orchestrator_agent, risk_finder_agent]" by simp
  have "bias_guardrail_agent \<in> set (callees orchestrator_agent)"
    by (simp add: callees_def)
  with reachable.start [of orchestrator_agent]
  have c: "reachable orchestrator_agent bias_guardrail_agent"
    by (rule reachable.step)
  from tool_dispatch_unreachable [OF a b c] a c show ?thesis by simp
qed

text \<open>
  C10, as the code has it. The module docstring documents an optional \<^verbatim>\<open>MODEL\<close>
  setting, and the claim says every agent passes the configured identifier. The code never
  reads that setting: with \<^verbatim>\<open>MODEL=gpt-4o\<close> in the environment the seven checker agents
  are still built with the literal \<^verbatim>\<open>gpt-4o-mini\<close>, and the other ten agents with no
  model identifier at all.
\<close>

theorem model_identifiers_fixed:
  "map (configured_model [''MODEL'' \<mapsto> ''gpt-4o''])
     [in_guardrail_agent, bias_in_product_eval_agent, bias_in_team_eval_agent,
      out_pii_or_poli_guardrail_agent, hallucination_guardrail_agent,
      over_extreme_langauge_guardrail_agent, bias_guardrail_agent]
   = replicate 7 (Some ''gpt-4o-mini'')
   \<and> map (configured_model [''MODEL'' \<mapsto> ''gpt-4o''])
     [product_eval_agent, market_eval_agent, team_eval_agent, startup_eval_agent,
      differentiation_analyzer_agent, vision_agent, scalability_agent,
      startup_improvement_agent, risk_finder_agent, orchestrator_agent]
   = replicate 10 None"
  by (simp add: configured_model_def numeral_eq_Suc)

section \<open>Properties of the runner\<close>

subsection \<open>Runs of the checker agents\<close>

lemma guardrail_agent_leaf: "is_leaf (guardrail_agent g)"
  by (cases g) (simp_all add: is_leaf_def)

lemma leaf_run_final:
  assumes "is_leaf a" and "m a [UserMessage v] = FinalOutput w"
    and "conforms (output_type (agents a)) w"
  shows "Runner_run m (Suc (Suc n)) a v = Some ([a], Inr w)"
  using assms by (simp add: is_leaf_def)

lemma guardrail_verdict:
  assumes "m (guardrail_agent g) [UserMessage v] = FinalOutput (PyObj c b)"
    and "output_type (agents (guardrail_agent g)) = Some c"
    and "class_field c = guardrail_field g"
  shows "guardrail_function (\<lambda>a x. Runner_run m (Suc (Suc n)) a x) g v =
           Some ([guardrail_agent g], Inr \<lparr>output_info = PyObj c b, tripwire_triggered = b\<rparr>)"
proof -
  have "Runner_run m (Suc (Suc n)) (guardrail_agent g) v = Some ([guardrail_agent g], Inr (PyObj c b))"
    using assms by (intro leaf_run_final guardrail_agent_leaf) simp_all
  then show ?thesis using assms(3) by (simp add: guardrail_function_def)
qed

lemma leaf_turns:
  assumes "tools (agents a) = []" and "handoffs (agents a) = []"
    and "run_turns m n a conv = Some (t, r)"
  shows "t = [a] \<and> final_by r a"
proof (cases n)
  case 0
  with assms show ?thesis by simp
next
  case (Suc k)
  with assms show ?thesis by (auto split: reply.splits if_splits)
qed

lemma leaf_run_trace:
  assumes "is_leaf a" and "Runner_run m n a v = Some (t, r)"
  shows "t = [a]"
proof (cases n)
  case 0
  with assms show ?thesis by simp
next
  case (Suc k)
  with assms show ?thesis
    by (auto simp: is_leaf_def split: option.splits sum.splits dest!: leaf_turns [rotated 2])
qed

lemma guardrail_function_trace:
  assumes "guardrail_function (\<lambda>a x. Runner_run m n a x) g v = Some (t, r)"
  shows "t = [guardrail_agent g]"
  using assms leaf_run_trace [OF guardrail_agent_leaf, of m n g v]
  by (auto simp: guardrail_function_def split: option.splits sum.splits)

lemma check_guardrails_trace:
  assumes "check_guardrails (\<lambda>a x. Runner_run m n a x) tripped gs v = Some (t, r)"
  shows "set t \<subseteq> guardrail_agent ` set gs"
  using assms
proof (induction gs arbitrary: t r)
  case Nil
  then show ?case by simp
next
  case (Cons g gs)
  from Cons.prems obtain t0 r0 where
    g: "guardrail_function (\<lambda>a x. Runner_run m n a x) g v = Some (t0, r0)"
    by (auto split: option.splits)
  then have t0: "t0 = [guardrail_agent g]" by (rule guardrail_function_trace)
  show ?case
  proof (cases "check_guardrails (\<lambda>a x. Runner_run m n a x) tripped gs v")
    case None
    with Cons.prems g t0 show ?thesis
      by (auto split: sum.splits if_splits)
  next
    case (Some p)
    obtain t' r' where p: "p = (t', r')" by (cases p)
    with Some Cons.IH have "set t' \<subseteq> guardrail_agent ` set gs" by blast
    with Cons.prems g t0 Some p show ?thesis
      by (auto split: sum.splits if_splits)
  qed
qed

lemma guardrail_agent_checker: "guardrail_agent g \<in> checker_agents"
  by (cases g) (simp_all add: checker_agents_def)

subsection \<open>The shape of a trace\<close>

lemma improvement_step:
  "run_turns m (Suc k) startup_improvement_agent conv =
     (case m startup_improvement_agent conv of
        FinalOutput v \<Rightarrow>
          if conforms None v
          then Some ([startup_improvement_agent], Inr (startup_improvement_agent, v))
          else Some ([startup_improvement_agent], Inl SchemaValidationFailure)
      | HandoffCall b \<Rightarrow>
          if b = differentiation_analyzer_agent \<or> b = vision_agent \<or> b = scalability_agent
          then (case run_turns m k b (conv @ [HandoffMade startup_improvement_agent b]) of
                  None \<Rightarrow> None
                | Some (t, r) \<Rightarrow> Some (startup_improvement_agent # t, r))
          else Some ([startup_improvement_agent], Inl ModelBehaviorError)
      | ToolCall tn arg \<Rightarrow> Some ([startup_improvement_agent], Inl ModelBehaviorError)
      | InferenceFailed \<Rightarrow> Some ([startup_improvement_agent], Inl InferenceFailure))"
  by (simp split: reply.split)

lemma orchestrator_step:
  "run_turns m (Suc k) orchestrator_agent conv =
     (case m orchestrator_agent conv of
        FinalOutput v \<Rightarrow>
          if conforms None v
          then Some ([orchestrator_agent], Inr (orchestrator_agent, v))
          else Some ([orchestrator_agent], Inl SchemaValidationFailure)
      | HandoffCall b \<Rightarrow>
          if b = startup_improvement_agent
          then (case run_turns m k b (conv @ [HandoffMade orchestrator_agent b]) of
                  None \<Rightarrow> None
                | Some (t, r) \<Rightarrow> Some (orchestrator_agent # t, r))
          else Some ([orchestrator_agent], Inl ModelBehaviorError)
      | ToolCall tn arg \<Rightarrow> Some ([orchestrator_agent], Inl ModelBehaviorError)
      | InferenceFailed \<Rightarrow> Some ([orchestrator_agent], Inl InferenceFailure))"
  by (simp split: reply.split)

lemma improvement_turns:
  assumes "run_turns m n startup_improvement_agent conv = Some (t, r)"
  shows "t \<in> {[startup_improvement_agent],
              [startup_improvement_agent, differentiation_analyzer_agent],
              [startup_improvement_agent, vision_agent],
              [startup_improvement_agent, scalability_agent]} \<and> final_by r (last t)"
proof (cases n)
  case 0
  with assms show ?thesis by simp
next
  case (Suc k)
  with assms have run: "run_turns m (Suc k) startup_improvement_agent conv = Some (t, r)"
    by simp
  show ?thesis
  proof (cases "m startup_improvement_agent conv")
    case (FinalOutput v)
    with run have "t = [startup_improvement_agent]" "final_by r startup_improvement_agent"
      unfolding improvement_step by (auto split: if_splits)
    then show ?thesis by simp
  next
    case (HandoffCall b)
    show ?thesis
    proof (cases "b = differentiation_analyzer_agent \<or> b = vision_agent \<or> b = scalability_agent")
      case True
      with run HandoffCall obtain t' where
        sub: "run_turns m k b (conv @ [HandoffMade startup_improvement_agent b]) = Some (t', r)"
        and t: "t = startup_improvement_agent # t'"
        unfolding improvement_step by (simp split: option.splits prod.splits)
      from True have leaf: "tools (agents b) = []" "handoffs (agents b) = []" by auto
      from leaf_turns [OF leaf sub] have "t' = [b]" "final_by r b" by simp_all
      with t True show ?thesis by auto
    next
      case False
      with run HandoffCall have "t = [startup_improvement_agent]" "r = Inl ModelBehaviorError"
        unfolding improvement_step by simp_all
      then show ?thesis by simp
    qed
  next
    case (ToolCall tn arg)
    with run have "t = [startup_improvement_agent]" "r = Inl ModelBehaviorError"
      unfolding improvement_step by simp_all
    then show ?thesis by simp
  next
    case InferenceFailed
    with run have "t = [startup_improvement_agent]" "r = Inl InferenceFailure"
      unfolding improvement_step by simp_all
    then show ?thesis by simp
  qed
qed

lemma orchestrator_turns:
  assumes "run_turns m n orchestrator_agent conv = Some (t, r)"
  shows "t \<in> {[orchestrator_agent],
              [orchestrator_agent, startup_improvement_agent],
              [orchestrator_agent, startup_improvement_agent, differentiation_analyzer_agent],
              [orchestrator_agent, startup_improvement_agent, vision_agent],
              [orchestrator_agent, startup_improvement_agent, scalability_agent]} \<and>
         final_by r (last t)"
proof (cases n)
  case 0
  with assms show ?thesis by simp
next
  case (Suc k)
  with assms have run: "run_turns m (Suc k) orchestrator_agent conv = Some (t, r)"
    by simp
  show ?thesis
  proof (cases "m orchestrator_agent conv")
    case (FinalOutput v)
    with run have "t = [orchestrator_agent]" "final_by r orchestrator_agent"
      unfolding orchestrator_step by (auto split: if_splits)
    then show ?thesis by simp
  next
    case (HandoffCall b)
    show ?thesis
    proof (cases "b = startup_improvement_agent")
      case True
      with run HandoffCall obtain t' where
        sub: "run_turns m k startup_improvement_agent
                (conv @ [HandoffMade orchestrator_agent startup_improvement_agent]) = Some (t', r)"
        and t: "t = orchestrator_agent # t'"
        unfolding orchestrator_step by (simp split: option.splits prod.splits)
      from improvement_turns [OF sub] have
        "t' = [startup_improvement_agent] \<or>
         t' = [startup_improvement_agent, differentiation_analyzer_agent] \<or>
         t' = [startup_improvement_agent, vision_agent] \<or>
         t' = [startup_improvement_agent, scalability_agent]"
        and "final_by r (last t')" by simp_all
      with t show ?thesis by (elim disjE) simp_all
    next
      case False
      with run HandoffCall have "t = [orchestrator_agent]" "r = Inl ModelBehaviorError"
        unfolding orchestrator_step by simp_all
      then show ?thesis by simp
    qed
  next
    case (ToolCall tn arg)
    with run have "t = [orchestrator_agent]" "r = Inl ModelBehaviorError"
      unfolding orchestrator_step by simp_all
    then show ?thesis by simp
  next
    case InferenceFailed
    with run have "t = [orchestrator_agent]" "r = Inl InferenceFailure"
      unfolding orchestrator_step by simp_all
    then show ?thesis by simp
  qed
qed

lemma no_resume_between_checks:
  assumes "set t1 \<subseteq> C" and "set t3 \<subseteq> C" and "a \<notin> C" and "b \<notin> C"
    and "\<not> resumes_after a b t2"
  shows "\<not> resumes_after a b (t1 @ t2 @ t3)"
proof -
  let ?P = "\<lambda>x. x \<noteq> b"
  have skip: "dropWhile ?P (t1 @ t2 @ t3) = dropWhile ?P (t2 @ t3)"
    using assms(1,4) by (intro dropWhile_append2) auto
  show ?thesis
  proof (cases "b \<in> set t2")
    case True
    then have "dropWhile ?P (t2 @ t3) = dropWhile ?P t2 @ t3"
      by (intro dropWhile_append1 [of b]) auto
    with skip assms(2,3,5) show ?thesis
      by (auto simp: resumes_after_def)
  next
    case False
    then have "dropWhile ?P (t2 @ t3) = dropWhile ?P t3"
      by (intro dropWhile_append2) auto
    with skip assms(2,3) show ?thesis
      by (auto simp: resumes_after_def dest: set_dropWhileD)
  qed
qed

lemma run_trace_parts:
  assumes "Runner_run m n a inp = Some (t, r)"
  obtains t1 t2 t3 where "t = t1 @ t2 @ t3" and "set t1 \<subseteq> checker_agents"
    and "set t3 \<subseteq> checker_agents"
    and "t2 = [] \<or> (\<exists>k r2. run_turns m k a [UserMessage inp] = Some (t2, r2))"
proof (cases n)
  case 0
  with assms show ?thesis by simp
next
  case (Suc k)
  let ?run = "\<lambda>b v. Runner_run m k b v"
  let ?c1 = "check_guardrails ?run InputGuardrailTripwireTriggered
               (input_guardrails (agents a)) inp"
  from assms Suc have run: "Runner_run m (Suc k) a inp = Some (t, r)" by simp
  show ?thesis
  proof (cases ?c1)
    case None
    with run show ?thesis by simp
  next
    case (Some p1)
    obtain t1 r1 where p1: "p1 = (t1, r1)" by (cases p1)
    with Some have c1: "?c1 = Some (t1, r1)" by simp
    from check_guardrails_trace [OF c1] have s1: "set t1 \<subseteq> checker_agents"
      using guardrail_agent_checker by auto
    show ?thesis
    proof (cases r1)
      case (Inl e)
      with run c1 have "t = t1 @ [] @ []" by simp
      with s1 show ?thesis by (intro that [of t1 "[]" "[]"]) simp_all
    next
      case (Inr u)
      show ?thesis
      proof (cases "run_turns m k a [UserMessage inp]")
        case None
        with run c1 Inr show ?thesis by simp
      next
        case (Some p2)
        obtain t2 r2 where p2: "p2 = (t2, r2)" by (cases p2)
        with Some have c2: "run_turns m k a [UserMessage inp] = Some (t2, r2)" by simp
        show ?thesis
        proof (cases r2)
          case (Inl e)
          with run c1 Inr c2 have "t = t1 @ t2 @ []" by simp
          with s1 c2 show ?thesis by (intro that [of t1 t2 "[]"]) auto
        next
          case r2: (Inr q)
          obtain b v where q: "q = (b, v)" by (cases q)
          let ?c3 = "check_guardrails ?run OutputGuardrailTripwireTriggered
                       (output_guardrails (agents b)) v"
          show ?thesis
          proof (cases ?c3)
            case None
            with run c1 Inr c2 r2 q show ?thesis by simp
          next
            case (Some p3)
            obtain t3 r3 where p3: "p3 = (t3, r3)" by (cases p3)
            with Some have c3: "?c3 = Some (t3, r3)" by simp
            from check_guardrails_trace [OF c3] have s3: "set t3 \<subseteq> checker_agents"
              using guardrail_agent_checker by auto
            from run c1 Inr c2 r2 q c3 have "t = t1 @ t2 @ t3"
              by (cases r3) simp_all
            with s1 s3 c2 show ?thesis by (intro that [of t1 t2 t3]) auto
          qed
        qed
      qed
    qed
  qed
qed

lemma talkers_not_checkers:
  "orchestrator_agent \<notin> checker_agents" "startup_improvement_agent \<notin> checker_agents"
  "differentiation_analyzer_agent \<notin> checker_agents" "vision_agent \<notin> checker_agents"
  "scalability_agent \<notin> checker_agents"
  by (simp_all add: checker_agents_def)

lemma handoff_is_one_way:
  assumes "Runner_run m n orchestrator_agent inp = Some (t, r)"
  shows "\<not> resumes_after orchestrator_agent startup_improvement_agent t \<and>
         \<not> resumes_after startup_improvement_agent differentiation_analyzer_agent t \<and>
         \<not> resumes_after startup_improvement_agent vision_agent t \<and>
         \<not> resumes_after startup_improvement_agent scalability_agent t"
proof -
  from assms obtain t1 t2 t3 where
    t: "t = t1 @ t2 @ t3" and s1: "set t1 \<subseteq> checker_agents" and s3: "set t3 \<subseteq> checker_agents"
    and t2: "t2 = [] \<or> (\<exists>k r2. run_turns m k orchestrator_agent [UserMessage inp] = Some (t2, r2))"
    by (rule run_trace_parts)
  from t2 have shape: "t2 \<in> {[], [orchestrator_agent],
      [orchestrator_agent, startup_improvement_agent],
      [orchestrator_agent, startup_improvement_agent, differentiation_analyzer_agent],
      [orchestrator_agent, startup_improvement_agent, vision_agent],
      [orchestrator_agent, startup_improvement_agent, scalability_agent]}"
  proof
    assume "t2 = []"
    then show ?thesis by simp
  next
    assume "\<exists>k r2. run_turns m k orchestrator_agent [UserMessage inp] = Some (t2, r2)"
    then obtain k r2 where "run_turns m k orchestrator_agent [UserMessage inp] = Some (t2, r2)"
      by (elim exE)
    from orchestrator_turns [OF this] show ?thesis by simp
  qed
  then have inner:
    "\<not> resumes_after orchestrator_agent startup_improvement_agent t2"
    "\<not> resumes_after startup_improvement_agent differentiation_analyzer_agent t2"
    "\<not> resumes_after startup_improvement_agent vision_agent t2"
    "\<not> resumes_after startup_improvement_agent scalability_agent t2"
    by (auto simp: resumes_after_def)
  show ?thesis
    unfolding t
    by (intro conjI no_resume_between_checks [OF s1 s3] talkers_not_checkers inner)
qed

text \<open>
  The agents whose model a run of the Orchestrator calls: itself, the improvement
  coordinator and its three sub-agents, and checker agents. None of them is
  \<open>startup_eval_agent\<close> or a leaf evaluator.
\<close>

lemma orchestrator_run_agents:
  assumes "Runner_run m n orchestrator_agent inp = Some (t, r)"
  shows "set t \<subseteq> checker_agents \<union>
           {orchestrator_agent, startup_improvement_agent, differentiation_analyzer_agent,
            vision_agent, scalability_agent}"
proof -
  from assms obtain t1 t2 t3 where
    t: "t = t1 @ t2 @ t3" and s1: "set t1 \<subseteq> checker_agents" and s3: "set t3 \<subseteq> checker_agents"
    and t2: "t2 = [] \<or> (\<exists>k r2. run_turns m k orchestrator_agent [UserMessage inp] = Some (t2, r2))"
    by (rule run_trace_parts)
  from t2 have "set t2 \<subseteq> {orchestrator_agent, startup_improvement_agent,
      differentiation_analyzer_agent, vision_agent, scalability_agent}"
  proof
    assume "t2 = []"
    then show ?thesis by simp
  next
    assume "\<exists>k r2. run_turns m k orchestrator_agent [UserMessage inp] = Some (t2, r2)"
    then obtain k r2 where "run_turns m k orchestrator_agent [UserMessage inp] = Some (t2, r2)"
      by (elim exE)
    from orchestrator_turns [OF this] show ?thesis by auto
  qed
  with s1 s3 show ?thesis unfolding t by auto
qed

lemma evaluators_never_called:
  assumes "Runner_run m n a inp = Some (t, r)"
    and "a = orchestrator_agent \<or> a = risk_finder_agent"
  shows "startup_eval_agent \<notin> set t \<and> product_eval_agent \<notin> set t \<and>
         market_eval_agent \<notin> set t \<and> team_eval_agent \<notin> set t"
  using assms(2)
proof
  assume "a = orchestrator_agent"
  with assms(1) orchestrator_run_agents [of m n inp t r] show ?thesis
    by (auto simp: checker_agents_def)
next
  assume a: "a = risk_finder_agent"
  then have "is_leaf a" by (simp add: is_leaf_def)
  from leaf_run_trace [OF this assms(1)] a show ?thesis by simp
qed

subsection \<open>Enough fuel gives a result\<close>

lemma leaf_turns_total:
  assumes "tools (agents a) = []" and "handoffs (agents a) = []"
  shows "run_turns m (Suc n) a conv \<noteq> None"
  using assms by (simp split: reply.split)

lemma leaf_run_total:
  assumes "is_leaf a"
  shows "Runner_run m (Suc (Suc n)) a v \<noteq> None"
  using assms by (simp add: is_leaf_def split: reply.split)

lemma guardrail_function_total:
  "guardrail_function (\<lambda>a x. Runner_run m (Suc (Suc n)) a x) g v \<noteq> None"
proof -
  obtain t r where "Runner_run m (Suc (Suc n)) (guardrail_agent g) v = Some (t, r)"
    using leaf_run_total [OF guardrail_agent_leaf, of m n g v] by fastforce
  then show ?thesis
    by (simp add: guardrail_function_def split: sum.split)
qed

lemma check_guardrails_total:
  "check_guardrails (\<lambda>a x. Runner_run m (Suc (Suc n)) a x) tripped gs v \<noteq> None"
proof (induction gs)
  case Nil
  show ?case by simp
next
  case (Cons g gs)
  obtain t r where g: "guardrail_function (\<lambda>a x. Runner_run m (Suc (Suc n)) a x) g v = Some (t, r)"
    using guardrail_function_total [of m n g v] by fastforce
  obtain t' r' where
    "check_guardrails (\<lambda>a x. Runner_run m (Suc (Suc n)) a x) tripped gs v = Some (t', r')"
    using Cons.IH by fastforce
  with g show ?case
    by (simp del: Runner_run.simps split: sum.split)
qed

lemma improvement_turns_total:
  "run_turns m (Suc (Suc n)) startup_improvement_agent conv \<noteq> None"
proof (cases "m startup_improvement_agent conv")
  case (HandoffCall b)
  show ?thesis
  proof (cases "b = differentiation_analyzer_agent \<or> b = vision_agent \<or> b = scalability_agent")
    case True
    then have "tools (agents b) = []" "handoffs (agents b) = []" by auto
    from leaf_turns_total [OF this, of m n "conv @ [HandoffMade startup_improvement_agent b]"]
    obtain t r where
      "run_turns m (Suc n) b (conv @ [HandoffMade startup_improvement_agent b]) = Some (t, r)"
      by fastforce
    with HandoffCall True show ?thesis
      unfolding improvement_step [of m "Suc n"] by simp
  next
    case False
    with HandoffCall show ?thesis
      unfolding improvement_step [of m "Suc n"] by simp
  qed
qed (simp_all only: improvement_step, simp_all)

lemma orchestrator_turns_total:
  "run_turns m (Suc (Suc (Suc n))) orchestrator_agent conv \<noteq> None"
proof (cases "m orchestrator_agent conv")
  case (HandoffCall b)
  show ?thesis
  proof (cases "b = startup_improvement_agent")
    case True
    from improvement_turns_total
      [of m n "conv @ [HandoffMade orchestrator_agent startup_improvement_agent]"]
    obtain t r where
      "run_turns m (Suc (Suc n)) startup_improvement_agent
         (conv @ [HandoffMade orchestrator_agent startup_improvement_agent]) = Some (t, r)"
      by fastforce
    with HandoffCall True show ?thesis
      unfolding orchestrator_step [of m "Suc (Suc n)"] by simp
  next
    case False
    with HandoffCall show ?thesis
      unfolding orchestrator_step [of m "Suc (Suc n)"] by simp
  qed
qed (simp_all only: orchestrator_step, simp_all)

lemma orchestrator_run_total:
  "Runner_run m (Suc (Suc (Suc (Suc n)))) orchestrator_agent inp \<noteq> None"
proof -
  let ?run = "\<lambda>a x. Runner_run m (Suc (Suc (Suc n))) a x"
  obtain t1 r1 where c1:
    "check_guardrails ?run InputGuardrailTripwireTriggered
       (input_guardrails (agents orchestrator_agent)) inp = Some (t1, r1)"
    using check_guardrails_total [of m "Suc n"] by fastforce
  obtain t2 r2 where c2:
    "run_turns m (Suc (Suc (Suc n))) orchestrator_agent [UserMessage inp] = Some (t2, r2)"
    using orchestrator_turns_total [of m n] by fastforce
  have c3: "check_guardrails ?run OutputGuardrailTripwireTriggered gs v \<noteq> None" for gs v
    using check_guardrails_total [of m "Suc n"] by simp
  show ?thesis
  proof (cases r1)
    case (Inl e)
    with c1 show ?thesis
      by (simp add: Runner_run.simps(2) [of m "Suc (Suc (Suc n))"]
            del: Runner_run.simps run_turns.simps)
  next
    case r1: (Inr u)
    show ?thesis
    proof (cases r2)
      case (Inl e)
      with c1 r1 c2 show ?thesis
        by (simp add: Runner_run.simps(2) [of m "Suc (Suc (Suc n))"]
              del: Runner_run.simps run_turns.simps)
    next
      case (Inr q)
      obtain b v where "q = (b, v)" by (cases q)
      with c1 r1 c2 Inr c3 [of "output_guardrails (agents b)" v] show ?thesis
        by (auto simp add: Runner_run.simps(2) [of m "Suc (Suc (Suc n))"]
              simp del: Runner_run.simps run_turns.simps split: sum.split)
    qed
  qed
qed

section \<open>Properties of a run\<close>

text \<open>
  C2, as the code has it. The claim that an input-guardrail trip gives an input-rejection
  message, still runs the Risk Finder and raises nothing fails: with an input the PII
  check flags, \<open>InputGuardrailTripwireTriggered\<close> leaves the driver, which has no handler for
  it, and the Risk Finder pass is never started.
\<close>

theorem input_trip_escapes:
  "evaluate_startup_gradio (untraced (Runner_run (stub_llm pii_verdict plain_talk) 10))
     ''Reach me at ann@example.com''
   = Some ([orchestrator_agent],
           Inl (InputGuardrailTripwireTriggered pii_and_poli_guardrail
                  (PyObj in_pii_and_poli_guardrail True)))"
  by (simp add: eval_nat_numeral stub_llm_def pii_verdict_def plain_talk_def
        guardrail_function_def evaluate_startup_gradio_def untraced_def)

text \<open>
  C2, amended. For every input whose input guardrail triggers, no further processing is
  performed: the run of the Orchestrator ends in \<open>InputGuardrailTripwireTriggered\<close> after
  the checker's one model call, so neither the Orchestrator's own model nor any delegate
  is called, and the driver does not run the Risk Finder pass.
\<close>

theorem input_trip_stops_processing:
  assumes "m in_guardrail_agent [UserMessage (PyStr inp)] =
             FinalOutput (PyObj in_pii_and_poli_guardrail True)"
  shows "Runner_run m (Suc (Suc (Suc n))) orchestrator_agent (PyStr inp) =
           Some ([in_guardrail_agent],
                 Inl (InputGuardrailTripwireTriggered pii_and_poli_guardrail
                        (PyObj in_pii_and_poli_guardrail True)))
         \<and> map_option fst
             (evaluate_startup_gradio (untraced (Runner_run m (Suc (Suc (Suc n))))) inp) =
           Some [orchestrator_agent]"
proof -
  have g: "guardrail_function (\<lambda>a x. Runner_run m (Suc (Suc n)) a x) pii_and_poli_guardrail
      (PyStr inp) =
      Some ([in_guardrail_agent],
        Inr \<lparr>output_info = PyObj in_pii_and_poli_guardrail True, tripwire_triggered = True\<rparr>)"
    using guardrail_verdict [of m pii_and_poli_guardrail "PyStr inp" in_pii_and_poli_guardrail True n]
      assms by simp
  have run: "Runner_run m (Suc (Suc (Suc n))) orchestrator_agent (PyStr inp) =
           Some ([in_guardrail_agent],
                 Inl (InputGuardrailTripwireTriggered pii_and_poli_guardrail
                        (PyObj in_pii_and_poli_guardrail True)))"
    by (simp add: g Runner_run.simps(2) [of m "Suc (Suc n)"]
          del: run_turns.simps Runner_run.simps)
  then show ?thesis
    by (simp add: evaluate_startup_gradio_def untraced_def
          del: run_turns.simps Runner_run.simps)
qed

theorem input_trip_stops_processing_witness:
  "Runner_run (stub_llm pii_verdict plain_talk) (Suc (Suc (Suc 0))) orchestrator_agent
      (PyStr ''Reach me at ann@example.com'') =
     Some ([in_guardrail_agent],
           Inl (InputGuardrailTripwireTriggered pii_and_poli_guardrail
                  (PyObj in_pii_and_poli_guardrail True)))
   \<and> map_option fst
       (evaluate_startup_gradio
          (untraced (Runner_run (stub_llm pii_verdict plain_talk) (Suc (Suc (Suc 0)))))
          ''Reach me at ann@example.com'') =
     Some [orchestrator_agent]"
  by (rule input_trip_stops_processing) (simp add: stub_llm_def pii_verdict_def)

text \<open>
  C3, as the runner has it. The claim that every hand-off is invoke-and-incorporate fails:
  when the Orchestrator hands off to \<open>startup_improvement_agent\<close> and that agent to
  \<open>vision_agent\<close>, the run ends with the output of \<open>vision_agent\<close> as its final output, and
  neither delegator's model is called again.
\<close>

theorem handoff_abandons_delegator:
  "Runner_run (stub_llm no_verdict handoff_talk) 10 orchestrator_agent (PyStr ''We sell maps.'')
     = Some ([in_guardrail_agent, orchestrator_agent, startup_improvement_agent, vision_agent],
             Inr (PyStr ''Name the five-year goal.''))
   \<and> \<not> resumes_after orchestrator_agent startup_improvement_agent
         [in_guardrail_agent, orchestrator_agent, startup_improvement_agent, vision_agent]
   \<and> \<not> resumes_after startup_improvement_agent vision_agent
         [in_guardrail_agent, orchestrator_agent, startup_improvement_agent, vision_agent]"
  by (simp add: eval_nat_numeral stub_llm_def no_verdict_def handoff_talk_def
        guardrail_function_def resumes_after_def)

text \<open>
  C3, amended. Within one request every hand-off is one-way: a run of the Orchestrator
  completes (fuel four suffices), and in its trace the model of \<open>orchestrator_agent\<close> is
  never called after \<open>startup_improvement_agent\<close> has run, nor the model of
  \<open>startup_improvement_agent\<close> after one of its three sub-agents has run.
\<close>

theorem handoff_one_way:
  "Runner_run m (Suc (Suc (Suc (Suc n)))) orchestrator_agent inp \<noteq> None \<and>
   (\<forall>k t r. Runner_run m k orchestrator_agent inp = Some (t, r) \<longrightarrow>
      \<not> resumes_after orchestrator_agent startup_improvement_agent t \<and>
      \<not> resumes_after startup_improvement_agent differentiation_analyzer_agent t \<and>
      \<not> resumes_after startup_improvement_agent vision_agent t \<and>
      \<not> resumes_after startup_improvement_agent scalability_agent t)"
  using orchestrator_run_total handoff_is_one_way by blast

theorem handoff_one_way_witness:
  "Runner_run (stub_llm no_verdict handoff_talk) 10 orchestrator_agent (PyStr ''We sell maps.'')
     = Some ([in_guardrail_agent, orchestrator_agent, startup_improvement_agent, vision_agent],
             Inr (PyStr ''Name the five-year goal.''))
   \<and> \<not> resumes_after orchestrator_agent startup_improvement_agent
         [in_guardrail_agent, orchestrator_agent, startup_improvement_agent, vision_agent]"
proof -
  have run: "Runner_run (stub_llm no_verdict handoff_talk) 10 orchestrator_agent
      (PyStr ''We sell maps.'')
     = Some ([in_guardrail_agent, orchestrator_agent, startup_improvement_agent, vision_agent],
             Inr (PyStr ''Name the five-year goal.''))"
    by (simp add: eval_nat_numeral stub_llm_def no_verdict_def handoff_talk_def
          guardrail_function_def)
  with handoff_one_way [of "stub_llm no_verdict handoff_talk" 0 "PyStr ''We sell maps.''"]
  show ?thesis by blast
qed

text \<open>
  C4, as the runner has it. The claim that a trigger of any of the Orchestrator's four
  output guardrails always gives the rejection message fails on the delegation path: the
  Orchestrator hands off, the final output is the text of \<open>vision_agent\<close>, an agent with
  no output guardrails, and although each of the four checkers would answer with a
  trigger on that text, the driver returns it as feedback.
\<close>

theorem delegated_output_unchecked:
  "evaluate_startup_gradio
     (untraced (Runner_run (stub_llm output_verdict handoff_talk) 10)) ''We sell maps.''
   = Some ([orchestrator_agent, risk_finder_agent],
           Inr (PyStr ''Name the five-year goal.'', PyStr ''Name the five-year goal.''))
   \<and> stub_llm output_verdict handoff_talk out_pii_or_poli_guardrail_agent
        [UserMessage (PyStr ''Name the five-year goal.'')]
       = FinalOutput (PyObj out_pii_and_poli_guardrail True)
   \<and> stub_llm output_verdict handoff_talk hallucination_guardrail_agent
        [UserMessage (PyStr ''Name the five-year goal.'')]
       = FinalOutput (PyObj hallucination_guardrail True)
   \<and> stub_llm output_verdict handoff_talk over_extreme_langauge_guardrail_agent
        [UserMessage (PyStr ''Name the five-year goal.'')]
       = FinalOutput (PyObj over_extreme_langauge_guardrail True)
   \<and> stub_llm output_verdict handoff_talk bias_guardrail_agent
        [UserMessage (PyStr ''Name the five-year goal.'')]
       = FinalOutput (PyObj bias_guardrail True)"
  by (simp add: eval_nat_numeral stub_llm_def output_verdict_def handoff_talk_def
        guardrail_function_def evaluate_startup_gradio_def untraced_def py_or_def)

text \<open>
  C4, amended. When the input passes its guardrail and \<open>orchestrator_agent\<close> itself
  produces the synthesized text as the final output of its run, and each of the four
  output guardrails gives a verdict on that text, then as soon as any one verdict is a
  trigger the driver returns the output-rejection message in the feedback field (and the
  empty string as risk text), whatever the other three verdicts are.
\<close>

theorem any_output_guardrail_rejects:
  assumes "m in_guardrail_agent [UserMessage (PyStr inp)] =
             FinalOutput (PyObj in_pii_and_poli_guardrail False)"
    and "m orchestrator_agent [UserMessage (PyStr inp)] = FinalOutput (PyStr text)"
    and "m out_pii_or_poli_guardrail_agent [UserMessage (PyStr text)] =
             FinalOutput (PyObj out_pii_and_poli_guardrail b1)"
    and "m hallucination_guardrail_agent [UserMessage (PyStr text)] =
             FinalOutput (PyObj hallucination_guardrail b2)"
    and "m over_extreme_langauge_guardrail_agent [UserMessage (PyStr text)] =
             FinalOutput (PyObj over_extreme_langauge_guardrail b3)"
    and "m bias_guardrail_agent [UserMessage (PyStr text)] =
             FinalOutput (PyObj bias_guardrail b4)"
    and "b1 \<or> b2 \<or> b3 \<or> b4"
  shows "evaluate_startup_gradio (untraced (Runner_run m (Suc (Suc (Suc n))))) inp =
           Some ([orchestrator_agent],
                 Inr (PyStr (''Guardrail tripped '' @ [CHR 0xE2, CHR 0x80, CHR 0x93] @
                             '' sensitive content detected. Please revise your input.''),
                      PyStr []))"
proof -
  let ?run = "\<lambda>a x. Runner_run m (Suc (Suc n)) a x"
  have g0: "guardrail_function ?run pii_and_poli_guardrail (PyStr inp) =
      Some ([in_guardrail_agent],
        Inr \<lparr>output_info = PyObj in_pii_and_poli_guardrail False, tripwire_triggered = False\<rparr>)"
    using guardrail_verdict [of m pii_and_poli_guardrail "PyStr inp" in_pii_and_poli_guardrail False n]
      assms(1) by simp
  have g1: "guardrail_function ?run sens_content_guardrail (PyStr text) =
      Some ([out_pii_or_poli_guardrail_agent],
        Inr \<lparr>output_info = PyObj out_pii_and_poli_guardrail b1, tripwire_triggered = b1\<rparr>)"
    using guardrail_verdict [of m sens_content_guardrail "PyStr text" out_pii_and_poli_guardrail b1 n]
      assms(3) by simp
  have g2: "guardrail_function ?run hallucination_output_guardrail (PyStr text) =
      Some ([hallucination_guardrail_agent],
        Inr \<lparr>output_info = PyObj hallucination_guardrail b2, tripwire_triggered = b2\<rparr>)"
    using guardrail_verdict [of m hallucination_output_guardrail "PyStr text" hallucination_guardrail b2 n]
      assms(4) by simp
  have g3: "guardrail_function ?run extreme_language_guardrail (PyStr text) =
      Some ([over_extreme_langauge_guardrail_agent],
        Inr \<lparr>output_info = PyObj over_extreme_langauge_guardrail b3, tripwire_triggered = b3\<rparr>)"
    using guardrail_verdict [of m extreme_language_guardrail "PyStr text" over_extreme_langauge_guardrail b3 n]
      assms(5) by simp
  have g4: "guardrail_function ?run bias_detection_guardrail (PyStr text) =
      Some ([bias_guardrail_agent],
        Inr \<lparr>output_info = PyObj bias_guardrail b4, tripwire_triggered = b4\<rparr>)"
    using guardrail_verdict [of m bias_detection_guardrail "PyStr text" bias_guardrail b4 n]
      assms(6) by simp
  have turn: "run_turns m (Suc (Suc n)) orchestrator_agent [UserMessage (PyStr inp)] =
      Some ([orchestrator_agent], Inr (orchestrator_agent, PyStr text))"
    using assms(2) by simp
  have "\<exists>t g info. Runner_run m (Suc (Suc (Suc n))) orchestrator_agent (PyStr inp) =
      Some (t, Inl (OutputGuardrailTripwireTriggered g info))"
    using assms(7) by (simp add: g0 g1 g2 g3 g4 turn del: run_turns.simps Runner_run.simps(2)
        add: Runner_run.simps(2) [of m "Suc (Suc n)"], blast)
  then show ?thesis
    by (auto simp: evaluate_startup_gradio_def untraced_def guardrail_tripped_message_def)
qed

theorem any_output_guardrail_rejects_witness:
  "evaluate_startup_gradio
     (untraced (Runner_run (stub_llm bias_verdict plain_talk) (Suc (Suc (Suc 0)))))
     ''We sell maps.''
   = Some ([orchestrator_agent],
           Inr (PyStr (''Guardrail tripped '' @ [CHR 0xE2, CHR 0x80, CHR 0x93] @
                       '' sensitive content detected. Please revise your input.''),
                PyStr []))"
  by (rule any_output_guardrail_rejects [of _ _ "''Clear niche.''" False False False True])
     (simp_all add: stub_llm_def bias_verdict_def plain_talk_def)

text \<open>
  C7. \<open>product_eval_agent\<close> and \<open>team_eval_agent\<close> each carry one output guardrail, their
  bias check, and \<open>market_eval_agent\<close> carries none. The output text of the product and
  team evaluators passes through that guardrail before it is returned: if the check
  triggers, the run fails with \<open>OutputGuardrailTripwireTriggered\<close> carrying the guardrail
  and its details; if not, the text is returned. The market evaluator's text is returned
  unchecked.
\<close>

theorem leaf_evaluator_bias_guardrails:
  "output_guardrails (agents product_eval_agent) = [bias_in_product_eval] \<and>
   output_guardrails (agents team_eval_agent) = [bias_in_team_eval] \<and>
   output_guardrails (agents market_eval_agent) = [] \<and>
   (m product_eval_agent [UserMessage inp] = FinalOutput (PyStr text) \<and>
    m bias_in_product_eval_agent [UserMessage (PyStr text)] =
      FinalOutput (PyObj product_eval_bias b) \<longrightarrow>
    Runner_run m (Suc (Suc (Suc n))) product_eval_agent inp =
      Some ([product_eval_agent, bias_in_product_eval_agent],
            if b then Inl (OutputGuardrailTripwireTriggered bias_in_product_eval
                             (PyObj product_eval_bias True))
            else Inr (PyStr text))) \<and>
   (m team_eval_agent [UserMessage inp] = FinalOutput (PyStr text) \<and>
    m bias_in_team_eval_agent [UserMessage (PyStr text)] =
      FinalOutput (PyObj team_eval_bias b) \<longrightarrow>
    Runner_run m (Suc (Suc (Suc n))) team_eval_agent inp =
      Some ([team_eval_agent, bias_in_team_eval_agent],
            if b then Inl (OutputGuardrailTripwireTriggered bias_in_team_eval
                             (PyObj team_eval_bias True))
            else Inr (PyStr text))) \<and>
   (m market_eval_agent [UserMessage inp] = FinalOutput (PyStr text) \<longrightarrow>
    Runner_run m (Suc (Suc (Suc n))) market_eval_agent inp =
      Some ([market_eval_agent], Inr (PyStr text)))"
proof (intro conjI impI)
  assume a: "m product_eval_agent [UserMessage inp] = FinalOutput (PyStr text) \<and>
    m bias_in_product_eval_agent [UserMessage (PyStr text)] =
      FinalOutput (PyObj product_eval_bias b)"
  have g: "guardrail_function (\<lambda>a x. Runner_run m (Suc (Suc n)) a x) bias_in_product_eval
      (PyStr text) =
      Some ([bias_in_product_eval_agent],
        Inr \<lparr>output_info = PyObj product_eval_bias b, tripwire_triggered = b\<rparr>)"
    using guardrail_verdict [of m bias_in_product_eval "PyStr text" product_eval_bias b n] a
    by simp
  have turn: "run_turns m (Suc (Suc n)) product_eval_agent [UserMessage inp] =
      Some ([product_eval_agent], Inr (product_eval_agent, PyStr text))"
    using a by simp
  show "Runner_run m (Suc (Suc (Suc n))) product_eval_agent inp =
      Some ([product_eval_agent, bias_in_product_eval_agent],
            if b then Inl (OutputGuardrailTripwireTriggered bias_in_product_eval
                             (PyObj product_eval_bias True))
            else Inr (PyStr text))"
    by (simp add: g turn Runner_run.simps(2) [of m "Suc (Suc n)"]
          del: run_turns.simps Runner_run.simps)
next
  assume a: "m team_eval_agent [UserMessage inp] = FinalOutput (PyStr text) \<and>
    m bias_in_team_eval_agent [UserMessage (PyStr text)] =
      FinalOutput (PyObj team_eval_bias b)"
  have g: "guardrail_function (\<lambda>a x. Runner_run m (Suc (Suc n)) a x) bias_in_team_eval
      (PyStr text) =
      Some ([bias_in_team_eval_agent],
        Inr \<lparr>output_info = PyObj team_eval_bias b, tripwire_triggered = b\<rparr>)"
    using guardrail_verdict [of m bias_in_team_eval "PyStr text" team_eval_bias b n] a
    by simp
  have turn: "run_turns m (Suc (Suc n)) team_eval_agent [UserMessage inp] =
      Some ([team_eval_agent], Inr (team_eval_agent, PyStr text))"
    using a by simp
  show "Runner_run m (Suc (Suc (Suc n))) team_eval_agent inp =
      Some ([team_eval_agent, bias_in_team_eval_agent],
            if b then Inl (OutputGuardrailTripwireTriggered bias_in_team_eval
                             (PyObj team_eval_bias True))
            else Inr (PyStr text))"
    by (simp add: g turn Runner_run.simps(2) [of m "Suc (Suc n)"]
          del: run_turns.simps Runner_run.simps)
next
  assume a: "m market_eval_agent [UserMessage inp] = FinalOutput (PyStr text)"
  have turn: "run_turns m (Suc (Suc n)) market_eval_agent [UserMessage inp] =
      Some ([market_eval_agent], Inr (market_eval_agent, PyStr text))"
    using a by simp
  show "Runner_run m (Suc (Suc (Suc n))) market_eval_agent inp =
      Some ([market_eval_agent], Inr (PyStr text))"
    by (simp add: turn Runner_run.simps(2) [of m "Suc (Suc n)"]
          del: run_turns.simps Runner_run.simps)
qed simp_all

theorem leaf_evaluator_bias_guardrails_witness:
  "Runner_run (stub_llm bias_verdict plain_talk) (Suc (Suc (Suc 0))) product_eval_agent
      (PyStr ''We sell maps.'') =
     Some ([product_eval_agent, bias_in_product_eval_agent],
           Inl (OutputGuardrailTripwireTriggered bias_in_product_eval
                  (PyObj product_eval_bias True)))
   \<and> Runner_run (stub_llm bias_verdict plain_talk) (Suc (Suc (Suc 0))) team_eval_agent
      (PyStr ''We sell maps.'') =
     Some ([team_eval_agent, bias_in_team_eval_agent], Inr (PyStr ''Clear niche.''))
   \<and> Runner_run (stub_llm bias_verdict plain_talk) (Suc (Suc (Suc 0))) market_eval_agent
      (PyStr ''We sell maps.'') =
     Some ([market_eval_agent], Inr (PyStr ''Clear niche.''))"
  using
    leaf_evaluator_bias_guardrails
      [of "stub_llm bias_verdict plain_talk" "PyStr ''We sell maps.''" "''Clear niche.''" True 0]
    leaf_evaluator_bias_guardrails
      [of "stub_llm bias_verdict plain_talk" "PyStr ''We sell maps.''" "''Clear niche.''" False 0]
  by (simp add: stub_llm_def bias_verdict_def plain_talk_def
        del: run_turns.simps Runner_run.simps)

end
